theory Spec2Isabelle
  imports Complex_Main
begin

section \<open>JavaScript strings and arrays\<close>

text \<open>
  Strings are lists of characters. The sources only inspect ASCII letters, digits,
  the hyphen, the comma, the newline and white space, so a character stands for one
  code unit of the JavaScript string.
\<close>

definition isLower :: "char \<Rightarrow> bool" where
  "isLower c = (c \<in> set ''abcdefghijklmnopqrstuvwxyz'')"

definition isDigit :: "char \<Rightarrow> bool" where
  "isDigit c = (c \<in> set ''0123456789'')"

text \<open>\<^verbatim>\<open>String.prototype.toLowerCase\<close> on the ASCII letters.\<close>

definition lowerChar :: "char \<Rightarrow> char" where
  "lowerChar c =
     (case map_of (zip ''ABCDEFGHIJKLMNOPQRSTUVWXYZ'' ''abcdefghijklmnopqrstuvwxyz'') c of
        Some l \<Rightarrow> l
      | None \<Rightarrow> c)"

definition toLowerCase :: "string \<Rightarrow> string" where
  "toLowerCase s = map lowerChar s"

fun startsWith :: "string \<Rightarrow> string \<Rightarrow> bool" where
  "startsWith s [] = True"
| "startsWith [] (p # ps) = False"
| "startsWith (c # cs) (p # ps) = (c = p \<and> startsWith cs ps)"

text \<open>\<^verbatim>\<open>s.includes(sub)\<close>: \<open>sub\<close> occurs somewhere in \<open>s\<close>.\<close>

fun includesStr :: "string \<Rightarrow> string \<Rightarrow> bool" where
  "includesStr [] sub = (sub = [])"
| "includesStr (c # cs) sub = (startsWith (c # cs) sub \<or> includesStr cs sub)"

text \<open>
  White space as \<^verbatim>\<open>String.prototype.trim\<close> sees it among the one-byte code units:
  tab, line feed, vertical tab, form feed, carriage return, space, no-break space.
\<close>

definition isSpace :: "char \<Rightarrow> bool" where
  "isSpace c = (of_char c \<in> set [9, 10, 11, 12, 13, 32, 160 :: nat])"

definition trim :: "string \<Rightarrow> string" where
  "trim s = rev (dropWhile isSpace (rev (dropWhile isSpace s)))"

text \<open>
  \<^verbatim>\<open>s.split(sep)\<close> for a one-character separator: the pieces between the
  separators, one more piece than there are separators (the empty string gives one
  empty piece). \<open>cur\<close> is the piece being read.
\<close>

fun splitFrom :: "char \<Rightarrow> string \<Rightarrow> string \<Rightarrow> string list" where
  "splitFrom sep cur [] = [cur]"
| "splitFrom sep cur (c # cs) =
     (if c = sep then cur # splitFrom sep [] cs else splitFrom sep (cur @ [c]) cs)"

definition splitStr :: "char \<Rightarrow> string \<Rightarrow> string list" where
  "splitStr sep s = splitFrom sep [] s"

text \<open>\<^verbatim>\<open>arr.join(sep)\<close>.\<close>

fun joinStr :: "string \<Rightarrow> string list \<Rightarrow> string" where
  "joinStr sep [] = []"
| "joinStr sep [x] = x"
| "joinStr sep (x # y # ys) = x @ sep @ joinStr sep (y # ys)"

text \<open>
  \<^verbatim>\<open>[...new Set(arr)]\<close>: a Set keeps the insertion order and ignores a value it
  already holds, so the first occurrence of every element survives, in order.
\<close>

definition setAdd :: "'a list \<Rightarrow> 'a \<Rightarrow> 'a list" where
  "setAdd acc x = (if x \<in> set acc then acc else acc @ [x])"

definition uniqueList :: "'a list \<Rightarrow> 'a list" where
  "uniqueList xs = foldl setAdd [] xs"

text \<open>\<^verbatim>\<open>arr.findIndex(p)\<close>: the first index whose element satisfies \<open>p\<close>, or \<open>-1\<close>.\<close>

fun findIndexFrom :: "('a \<Rightarrow> bool) \<Rightarrow> int \<Rightarrow> 'a list \<Rightarrow> int" where
  "findIndexFrom p i [] = -1"
| "findIndexFrom p i (x # xs) = (if p x then i else findIndexFrom p (i + 1) xs)"

definition findIndex :: "('a \<Rightarrow> bool) \<Rightarrow> 'a list \<Rightarrow> int" where
  "findIndex p xs = findIndexFrom p 0 xs"

text \<open>
  The region pattern \<^verbatim>\<open>/^[a-z]{2,3}-[a-z]+-\d+$/\<close>, used by both validators.
  A hyphen is not a letter, so the first group is the whole run of letters in front
  of the first hyphen and must have two or three letters; the second group is the
  whole run of letters after it and must not be empty; what follows the second
  hyphen, up to the end of the string, must be one or more digits.
\<close>

definition regionPattern :: "string \<Rightarrow> bool" where
  "regionPattern s =
     (let a = takeWhile isLower s; r1 = dropWhile isLower s in
      (length a = 2 \<or> length a = 3) \<and>
      (case r1 of
         [] \<Rightarrow> False
       | c # r2 \<Rightarrow>
           c = CHR ''-'' \<and>
           (let b = takeWhile isLower r2; r3 = dropWhile isLower r2 in
            b \<noteq> [] \<and>
            (case r3 of
               [] \<Rightarrow> False
             | d # r4 \<Rightarrow> d = CHR ''-'' \<and> r4 \<noteq> [] \<and> list_all isDigit r4))))"


section \<open>ErrorHandler (error-handler)\<close>

text \<open>
  A JavaScript \<^verbatim>\<open>Error\<close> object: its \<^verbatim>\<open>name\<close> and its \<^verbatim>\<open>message\<close>.
\<close>

datatype js_error = Error string string

fun error_name :: "js_error \<Rightarrow> string" where
  "error_name (Error n m) = n"

fun error_message :: "js_error \<Rightarrow> string" where
  "error_message (Error n m) = m"

text \<open>
  \<^verbatim>\<open>ErrorResponse\<close>. The two human-readable texts (\<^verbatim>\<open>message\<close>, \<^verbatim>\<open>action\<close>) are
  fixed Japanese sentences chosen together with the error code; the record keeps the
  fields a program can branch on.
\<close>

record ErrorResponse =
  recoverable :: bool
  errorCode :: "string option"
  retryAfter :: "int option"

definition handleCostExplorerError :: "js_error \<Rightarrow> ErrorResponse" where
  "handleCostExplorerError error =
     (let errorMessage = toLowerCase (error_message error);
          errorName = error_name error in
      if errorName = ''UnauthorizedOperation'' \<or>
         includesStr errorMessage ''unauthorized'' \<or>
         includesStr errorMessage ''access denied''
      then \<lparr>recoverable = True, errorCode = Some ''COST_EXPLORER_PERMISSION_DENIED'',
            retryAfter = None\<rparr>
      else if includesStr errorMessage ''throttling'' \<or>
         includesStr errorMessage ''rate exceeded'' \<or>
         includesStr errorMessage ''quota exceeded''
      then \<lparr>recoverable = True, errorCode = Some ''COST_EXPLORER_RATE_LIMIT'',
            retryAfter = Some 60\<rparr>
      else if includesStr errorMessage ''timeout'' \<or>
         includesStr errorMessage ''timed out''
      then \<lparr>recoverable = True, errorCode = Some ''COST_EXPLORER_TIMEOUT'',
            retryAfter = None\<rparr>
      else if includesStr errorMessage ''network'' \<or>
         includesStr errorMessage ''connection'' \<or>
         includesStr errorMessage ''enotfound''
      then \<lparr>recoverable = True, errorCode = Some ''NETWORK_ERROR'', retryAfter = None\<rparr>
      else \<lparr>recoverable = True, errorCode = Some ''COST_EXPLORER_UNKNOWN'',
            retryAfter = None\<rparr>)"

definition handleResourceError :: "js_error \<Rightarrow> string option \<Rightarrow> ErrorResponse" where
  "handleResourceError error region =
     (let errorMessage = toLowerCase (error_message error) in
      if error_name error = ''UnauthorizedOperation'' \<or>
         includesStr errorMessage ''unauthorized'' \<or>
         includesStr errorMessage ''access denied''
      then \<lparr>recoverable = True, errorCode = Some ''RESOURCE_API_PERMISSION_DENIED'',
            retryAfter = None\<rparr>
      else if includesStr errorMessage ''invalid region'' \<or>
         includesStr errorMessage ''region not found'' \<or>
         (includesStr errorMessage ''region'' \<and> includesStr errorMessage ''not supported'')
      then \<lparr>recoverable = False, errorCode = Some ''INVALID_REGION'', retryAfter = None\<rparr>
      else if includesStr errorMessage ''throttling'' \<or>
         includesStr errorMessage ''rate exceeded''
      then \<lparr>recoverable = True, errorCode = Some ''RESOURCE_RATE_LIMIT'',
            retryAfter = Some 30\<rparr>
      else \<lparr>recoverable = True, errorCode = Some ''RESOURCE_ERROR'', retryAfter = None\<rparr>)"

definition handleConfigError :: "js_error \<Rightarrow> ErrorResponse" where
  "handleConfigError error =
     (let errorMessage = toLowerCase (error_message error) in
      if includesStr errorMessage ''permission denied'' \<or> includesStr errorMessage ''eacces''
      then \<lparr>recoverable = True, errorCode = Some ''CONFIG_FILE_PERMISSION_DENIED'',
            retryAfter = None\<rparr>
      else if includesStr errorMessage ''no space'' \<or> includesStr errorMessage ''enospc''
      then \<lparr>recoverable = True, errorCode = Some ''DISK_SPACE_INSUFFICIENT'',
            retryAfter = None\<rparr>
      else if includesStr errorMessage ''no such file'' \<or> includesStr errorMessage ''enoent''
      then \<lparr>recoverable = True, errorCode = Some ''CONFIG_FILE_NOT_FOUND'',
            retryAfter = None\<rparr>
      else \<lparr>recoverable = True, errorCode = Some ''CONFIG_ERROR'', retryAfter = None\<rparr>)"

text \<open>
  \<^verbatim>\<open>RetryConfig\<close>, the partial configuration a caller passes, and the merge
  \<^verbatim>\<open>{ ...DEFAULT_RETRY_CONFIG, ...config }\<close>. The numbers are the integers the
  callers use (counts and milliseconds).
\<close>

record RetryConfig =
  maxRetries :: int
  baseDelay :: int
  maxDelay :: int
  backoffMultiplier :: int

record PartialRetryConfig =
  maxRetries_opt :: "int option"
  baseDelay_opt :: "int option"
  maxDelay_opt :: "int option"
  backoffMultiplier_opt :: "int option"

definition DEFAULT_RETRY_CONFIG :: RetryConfig where
  "DEFAULT_RETRY_CONFIG =
     \<lparr>maxRetries = 3, baseDelay = 1000, maxDelay = 10000, backoffMultiplier = 2\<rparr>"

definition mergeRetryConfig :: "RetryConfig \<Rightarrow> PartialRetryConfig \<Rightarrow> RetryConfig" where
  "mergeRetryConfig d c =
     \<lparr>maxRetries = (case maxRetries_opt c of Some v \<Rightarrow> v | None \<Rightarrow> maxRetries d),
      baseDelay = (case baseDelay_opt c of Some v \<Rightarrow> v | None \<Rightarrow> baseDelay d),
      maxDelay = (case maxDelay_opt c of Some v \<Rightarrow> v | None \<Rightarrow> maxDelay d),
      backoffMultiplier =
        (case backoffMultiplier_opt c of Some v \<Rightarrow> v | None \<Rightarrow> backoffMultiplier d)\<rparr>"

text \<open>The empty object \<^verbatim>\<open>{}\<close>, the default of \<^verbatim>\<open>withRetry\<close>'s second parameter.\<close>

definition emptyRetryConfig :: PartialRetryConfig where
  "emptyRetryConfig =
     \<lparr>maxRetries_opt = None, baseDelay_opt = None, maxDelay_opt = None,
      backoffMultiplier_opt = None\<rparr>"

definition nonRetryableErrors :: "string list" where
  "nonRetryableErrors =
     [''unauthorized'', ''access denied'', ''invalid region'', ''permission denied'',
      ''no such file'']"

definition isRetryableError :: "js_error \<Rightarrow> bool" where
  "isRetryableError error =
     (let errorMessage = toLowerCase (error_message error) in
      \<not> list_ex (\<lambda>nonRetryable. includesStr errorMessage nonRetryable) nonRetryableErrors)"

text \<open>
  The run of \<^verbatim>\<open>withRetry\<close>. The operation is a closure that may answer differently
  each time it is called: \<open>operation n\<close> is the outcome of its call number \<open>n\<close>
  (counting from 0), \<open>Inl\<close> a thrown error and \<open>Inr\<close> a returned value. The run
  records what an observer sees: the outcome, how often the operation was called,
  and the delays slept, in order.
\<close>

record 'a retry_run =
  outcome :: "js_error option + 'a"
  calls :: nat
  sleeps :: "int list"

text \<open>
  The delay slept after a failed \<open>attempt\<close>:
  \<^verbatim>\<open>Math.min(baseDelay * Math.pow(backoffMultiplier, attempt), maxDelay)\<close>.
\<close>

definition backoffDelay :: "RetryConfig \<Rightarrow> int \<Rightarrow> int" where
  "backoffDelay retryConfig attempt =
     min (baseDelay retryConfig * backoffMultiplier retryConfig ^ nat attempt)
         (maxDelay retryConfig)"

text \<open>
  The \<^verbatim>\<open>for\<close> loop of \<^verbatim>\<open>withRetry\<close> from a given \<open>attempt\<close> on. \<open>lastError\<close> is
  the variable of that name (\<open>None\<close> while it is unassigned); leaving the loop throws
  it, so a loop that never runs throws \<^verbatim>\<open>undefined\<close>, the outcome \<open>Inl None\<close>.
\<close>

function withRetryLoop ::
  "RetryConfig \<Rightarrow> (nat \<Rightarrow> js_error + 'a) \<Rightarrow> int \<Rightarrow> js_error option \<Rightarrow> nat \<Rightarrow> int list
     \<Rightarrow> 'a retry_run" where
  "withRetryLoop retryConfig operation attempt lastError n slept =
     (if attempt \<le> maxRetries retryConfig then
        (case operation n of
           Inr v \<Rightarrow> \<lparr>outcome = Inr v, calls = Suc n, sleeps = slept\<rparr>
         | Inl error \<Rightarrow>
             if attempt = maxRetries retryConfig
             then \<lparr>outcome = Inl (Some error), calls = Suc n, sleeps = slept\<rparr>
             else if \<not> isRetryableError error
             then \<lparr>outcome = Inl (Some error), calls = Suc n, sleeps = slept\<rparr>
             else
               (let delay = backoffDelay retryConfig attempt
                in withRetryLoop retryConfig operation (attempt + 1) (Some error) (Suc n)
                     (slept @ [delay])))
      else \<lparr>outcome = Inl lastError, calls = n, sleeps = slept\<rparr>)"
  by pat_completeness auto
termination
  by (relation "measure (\<lambda>(retryConfig, operation, attempt, lastError, n, slept).
        nat (maxRetries retryConfig + 1 - attempt))") auto

declare withRetryLoop.simps [simp del]

definition withRetry :: "(nat \<Rightarrow> js_error + 'a) \<Rightarrow> PartialRetryConfig \<Rightarrow> 'a retry_run" where
  "withRetry operation config =
     withRetryLoop (mergeRetryConfig DEFAULT_RETRY_CONFIG config) operation 0 None 0 []"


section \<open>RegionDetector (region-detector)\<close>

record RegionDetectionResult =
  activeRegions :: "string list"
  invalidRegions :: "string list"
  totalFound :: nat
  executionTime :: int
  costIncurred :: rat

text \<open>
  \<^verbatim>\<open>RegionDetectionConfig\<close>; \<^verbatim>\<open>retryConfig\<close> is optional and has no
  \<^verbatim>\<open>backoffMultiplier\<close>. A caller passes a partial configuration, merged over
  \<^verbatim>\<open>defaultConfig\<close> by \<^verbatim>\<open>{ ...this.defaultConfig, ...config }\<close>.
\<close>

record RegionDetectionConfig =
  timePeriodMonths :: int
  includeCurrentMonth :: bool
  filterInvalidRegions :: bool
  retryConfig :: "PartialRetryConfig option"

record PartialRegionDetectionConfig =
  timePeriodMonths_opt :: "int option"
  includeCurrentMonth_opt :: "bool option"
  filterInvalidRegions_opt :: "bool option"
  retryConfig_opt :: "PartialRetryConfig option option"

definition emptyDetectionConfig :: PartialRegionDetectionConfig where
  "emptyDetectionConfig =
     \<lparr>timePeriodMonths_opt = None, includeCurrentMonth_opt = None,
      filterInvalidRegions_opt = None, retryConfig_opt = None\<rparr>"

definition defaultConfig :: RegionDetectionConfig where
  "defaultConfig =
     \<lparr>timePeriodMonths = 1, includeCurrentMonth = True, filterInvalidRegions = True,
      retryConfig = Some \<lparr>maxRetries_opt = Some 2, baseDelay_opt = Some 1000,
                            maxDelay_opt = Some 5000, backoffMultiplier_opt = None\<rparr>\<rparr>"

definition mergeDetectionConfig ::
  "RegionDetectionConfig \<Rightarrow> PartialRegionDetectionConfig \<Rightarrow> RegionDetectionConfig" where
  "mergeDetectionConfig d c =
     \<lparr>timePeriodMonths =
        (case timePeriodMonths_opt c of Some v \<Rightarrow> v | None \<Rightarrow> timePeriodMonths d),
      includeCurrentMonth =
        (case includeCurrentMonth_opt c of Some v \<Rightarrow> v | None \<Rightarrow> includeCurrentMonth d),
      filterInvalidRegions =
        (case filterInvalidRegions_opt c of Some v \<Rightarrow> v | None \<Rightarrow> filterInvalidRegions d),
      retryConfig = (case retryConfig_opt c of Some v \<Rightarrow> v | None \<Rightarrow> retryConfig d)\<rparr>"

text \<open>The allow-list of \<^verbatim>\<open>RegionDetector.isValidAWSRegion\<close> (a Set of 33 names).\<close>

definition RegionDetector_validRegions :: "string list" where
  "RegionDetector_validRegions =
     [''us-east-1'', ''us-east-2'', ''us-west-1'', ''us-west-2'',
      ''eu-west-1'', ''eu-west-2'', ''eu-west-3'', ''eu-central-1'', ''eu-central-2'',
      ''eu-north-1'', ''eu-south-1'', ''eu-south-2'',
      ''ap-northeast-1'', ''ap-northeast-2'', ''ap-northeast-3'',
      ''ap-southeast-1'', ''ap-southeast-2'', ''ap-southeast-3'', ''ap-southeast-4'',
      ''ap-south-1'', ''ap-south-2'', ''ap-east-1'',
      ''ca-central-1'', ''ca-west-1'',
      ''sa-east-1'',
      ''af-south-1'',
      ''me-south-1'', ''me-central-1'',
      ''il-central-1'',
      ''cn-north-1'', ''cn-northwest-1'',
      ''us-gov-east-1'', ''us-gov-west-1'']"

definition RegionDetector_isValidAWSRegion :: "string \<Rightarrow> bool" where
  "RegionDetector_isValidAWSRegion region =
     (regionPattern region \<and> region \<in> set RegionDetector_validRegions)"

text \<open>
  \<^verbatim>\<open>filterRegions\<close>: the \<^verbatim>\<open>forEach\<close> appends every region, in order, to one of
  the two arrays; \<open>filterInvalid\<close> only decides whether a warning is logged. Both
  arrays are then deduplicated through a Set.
\<close>

definition filterRegions :: "string list \<Rightarrow> bool \<Rightarrow> string list \<times> string list" where
  "filterRegions regions filterInvalid =
     (let validRegions = filter RegionDetector_isValidAWSRegion regions;
          invalidRegions = filter (\<lambda>region. \<not> RegionDetector_isValidAWSRegion region) regions
      in (uniqueList validRegions, uniqueList invalidRegions))"

text \<open>
  The response of the usage query: \<^verbatim>\<open>DimensionValues\<close> may be absent, and so may
  the \<^verbatim>\<open>Value\<close> of an entry. \<open>allRegions\<close> keeps the defined values, or is empty.
\<close>

type_synonym dimension_response = "string option list option"

definition allRegionsOf :: "dimension_response \<Rightarrow> string list" where
  "allRegionsOf response =
     (case response of
        None \<Rightarrow> []
      | Some dims \<Rightarrow> concat (map (\<lambda>v. case v of None \<Rightarrow> [] | Some region \<Rightarrow> [region]) dims))"

text \<open>
  \<^verbatim>\<open>detectActiveRegions\<close>. \<open>send n\<close> is the outcome of the \<open>n\<close>-th call of the usage
  query (the time window of the command is computed from the wall clock and only
  travels to the provider); \<open>startTime\<close> and \<open>endTime\<close> are the two readings of
  \<^verbatim>\<open>Date.now()\<close>. A failure of the query after the retries is thrown on.
\<close>

definition detectActiveRegions ::
  "(nat \<Rightarrow> js_error + dimension_response) \<Rightarrow> PartialRegionDetectionConfig \<Rightarrow> int \<Rightarrow> int
     \<Rightarrow> js_error option + RegionDetectionResult" where
  "detectActiveRegions send config startTime endTime =
     (let finalConfig = mergeDetectionConfig defaultConfig config;
          policy = (case retryConfig finalConfig of
                      Some c \<Rightarrow> c
                    | None \<Rightarrow> emptyRetryConfig)
      in case outcome (withRetry send policy) of
           Inl thrown \<Rightarrow> Inl thrown
         | Inr response \<Rightarrow>
             (let allRegions = allRegionsOf response;
                  (validRegions, invalidRegions) =
                     filterRegions allRegions (filterInvalidRegions finalConfig)
              in Inr \<lparr>activeRegions = validRegions,
                      invalidRegions = invalidRegions,
                      totalFound = length allRegions,
                      executionTime = endTime - startTime,
                      costIncurred = 1 / 100\<rparr>))"

text \<open>
  \<^verbatim>\<open>validateDetectionResult\<close>. The issues are Japanese sentences in the source; each
  constructor stands for one of them, in the order the source pushes them.
\<close>

datatype detection_issue =
  NoRegionDetected | InvalidExecutionTime | NegativeCost | TotalMismatch | DuplicateRegions

definition detectionIssues :: "RegionDetectionResult \<Rightarrow> detection_issue list" where
  "detectionIssues result =
     (if length (activeRegions result) = 0 \<and> length (invalidRegions result) = 0
      then [NoRegionDetected] else []) @
     (if executionTime result \<le> 0 then [InvalidExecutionTime] else []) @
     (if costIncurred result < 0 then [NegativeCost] else []) @
     (if totalFound result \<noteq> length (activeRegions result) + length (invalidRegions result)
      then [TotalMismatch] else []) @
     (let allRegions = activeRegions result @ invalidRegions result in
      if length allRegions \<noteq> card (set allRegions) then [DuplicateRegions] else [])"

definition validateDetectionResult :: "RegionDetectionResult \<Rightarrow> bool \<times> detection_issue list" where
  "validateDetectionResult result =
     (let issues = detectionIssues result in (length issues = 0, issues))"


section \<open>ConfigManager (config-manager)\<close>

text \<open>The allow-list of \<^verbatim>\<open>ConfigManager.isValidAWSRegion\<close> (an array of 25 names).\<close>

definition ConfigManager_validRegions :: "string list" where
  "ConfigManager_validRegions =
     [''us-east-1'', ''us-east-2'', ''us-west-1'', ''us-west-2'',
      ''eu-west-1'', ''eu-west-2'', ''eu-west-3'', ''eu-central-1'', ''eu-north-1'',
      ''eu-south-1'',
      ''ap-northeast-1'', ''ap-northeast-2'', ''ap-northeast-3'',
      ''ap-southeast-1'', ''ap-southeast-2'', ''ap-south-1'', ''ap-east-1'',
      ''ca-central-1'', ''sa-east-1'', ''af-south-1'', ''me-south-1'',
      ''cn-north-1'', ''cn-northwest-1'',
      ''us-gov-east-1'', ''us-gov-west-1'']"

definition isValidAWSRegion :: "string \<Rightarrow> bool" where
  "isValidAWSRegion region =
     (regionPattern region \<and> region \<in> set ConfigManager_validRegions)"

definition parseRegions :: "string \<Rightarrow> string list" where
  "parseRegions regionString =
     (if regionString = [] \<or> trim regionString = [] then []
      else
        (let regions =
               filter isValidAWSRegion
                 (filter (\<lambda>region. length region > 0)
                    (map trim (splitStr CHR '','' regionString)))
         in uniqueList regions))"

definition formatRegions :: "string list \<Rightarrow> string" where
  "formatRegions regions =
     (let validRegions = filter isValidAWSRegion regions;
          uniqueRegions = uniqueList validRegions
      in joinStr '','' uniqueRegions)"

text \<open>
  How a write can fail. \<^verbatim>\<open>fs.writeFile\<close> opens the file for writing, which empties
  it, and then writes the text. When the open is refused (no permission, a
  read-only volume) the file stays as it was; when the storage fails while the text
  is written (a full disk) the old content is already gone and the file holds the
  characters written so far, possibly none.
\<close>

datatype write_fault = FailsAtOpen js_error | FailsAtWrite js_error nat

text \<open>
  The configuration file \<^verbatim>\<open>.env.local\<close> as \<^verbatim>\<open>fs/promises\<close> shows it to
  \<^verbatim>\<open>updateRegionConfig\<close>: its text (\<open>None\<close> when the file does not exist), the
  error, if any, with which the storage answers a read (an unreadable file), and the
  fault, if any, that the next write meets.
\<close>

record env_fs =
  fileContent :: "string option"
  readError :: "js_error option"
  writeError :: "write_fault option"

definition ENOENT_error :: js_error where
  "ENOENT_error = Error ''Error'' ''ENOENT: no such file or directory''"

definition env_readFile :: "env_fs \<Rightarrow> js_error + string" where
  "env_readFile fs =
     (case readError fs of
        Some e \<Rightarrow> Inl e
      | None \<Rightarrow> (case fileContent fs of None \<Rightarrow> Inl ENOENT_error | Some text \<Rightarrow> Inr text))"

definition env_writeFile :: "env_fs \<Rightarrow> string \<Rightarrow> (js_error + unit) \<times> env_fs" where
  "env_writeFile fs text =
     (case writeError fs of
        Some (FailsAtOpen e) \<Rightarrow> (Inl e, fs)
      | Some (FailsAtWrite e written) \<Rightarrow> (Inl e, fs\<lparr>fileContent := Some (take written text)\<rparr>)
      | None \<Rightarrow> (Inr (), fs\<lparr>fileContent := Some text\<rparr>))"

text \<open>
  What the body of the \<^verbatim>\<open>try\<close> block of \<^verbatim>\<open>updateRegionConfig\<close> can throw: its own
  error for an empty valid subset (a Japanese message in the source), or the error
  of the write.
\<close>

datatype update_failure = NoValidRegion | StorageFailure js_error

definition AWS_REGION_KEY :: string where
  "AWS_REGION_KEY = ''AWS_REGION''"

text \<open>
  The \<^verbatim>\<open>try\<close> block. A failed read is caught by the inner \<^verbatim>\<open>catch\<close>, which only
  logs: the content stays the empty string.
\<close>

definition updateRegionConfig_body ::
  "string list \<Rightarrow> env_fs \<Rightarrow> (update_failure + bool) \<times> env_fs" where
  "updateRegionConfig_body newRegions fs =
     (let validRegions = filter isValidAWSRegion newRegions in
      if length validRegions = 0 then (Inl NoValidRegion, fs)
      else
        (let fileContent = (case env_readFile fs of Inl e \<Rightarrow> [] | Inr text \<Rightarrow> text);
             lines = splitStr CHR 0x0A fileContent;
             regionLineIndex =
               findIndex (\<lambda>line. startsWith (trim line) (AWS_REGION_KEY @ ''='')) lines;
             newRegionLine = AWS_REGION_KEY @ ''='' @ formatRegions validRegions;
             lines' = (if regionLineIndex \<ge> 0
                       then lines[nat regionLineIndex := newRegionLine]
                       else lines @ [newRegionLine])
         in case env_writeFile fs (joinStr [CHR 0x0A] lines') of
              (Inl e, fs') \<Rightarrow> (Inl (StorageFailure e), fs')
            | (Inr u, fs') \<Rightarrow> (Inr True, fs')))"

text \<open>
  \<^verbatim>\<open>updateRegionConfig\<close>: the outer \<^verbatim>\<open>catch\<close> logs whatever the body threw and
  returns \<^verbatim>\<open>false\<close>. The result is how the promise settles: \<open>Inl\<close> a rejection,
  \<open>Inr\<close> the value it resolves to.
\<close>

definition updateRegionConfig ::
  "string list \<Rightarrow> env_fs \<Rightarrow> (update_failure + bool) \<times> env_fs" where
  "updateRegionConfig newRegions fs =
     (case updateRegionConfig_body newRegions fs of
        (Inl thrown, fs') \<Rightarrow> (Inr False, fs')
      | (Inr b, fs') \<Rightarrow> (Inr b, fs'))"


section \<open>DiscoveryCache (discovery-cache)\<close>

record DiscoveryCacheEntry =
  lastDiscovery :: string
  timestamp :: string
  discoveredRegions :: "string list"
  executionTime :: int
  costIncurred :: rat
  requestCount :: int


text \<open>
  The cache slot \<^verbatim>\<open>data/region-discovery-cache.json\<close>: the file is missing, cannot
  be read, holds text that is not JSON, or holds the JSON of an entry
  (\<^verbatim>\<open>JSON.stringify\<close> followed by \<^verbatim>\<open>JSON.parse\<close> gives the entry back). The
  storage may refuse to create the directory or to write the file.
\<close>

datatype cache_file = Missing | Unreadable | Unparseable | Stored DiscoveryCacheEntry

record cache_fs =
  cacheFile :: cache_file
  dirExists :: bool
  mkdirFails :: bool
  writeFails :: bool

datatype fs_error = ENOENT | EACCES | SyntaxError | MkdirError | WriteError

text \<open>\<^verbatim>\<open>fs.readFile\<close>: the raw text, which is either the JSON of an entry or not JSON.\<close>

datatype cache_text = Garbage | Json DiscoveryCacheEntry

definition cache_readFile :: "cache_fs \<Rightarrow> fs_error + cache_text" where
  "cache_readFile fs =
     (case cacheFile fs of
        Missing \<Rightarrow> Inl ENOENT
      | Unreadable \<Rightarrow> Inl EACCES
      | Unparseable \<Rightarrow> Inr Garbage
      | Stored e \<Rightarrow> Inr (Json e))"

definition JSON_parse :: "cache_text \<Rightarrow> fs_error + DiscoveryCacheEntry" where
  "JSON_parse text = (case text of Garbage \<Rightarrow> Inl SyntaxError | Json e \<Rightarrow> Inr e)"

definition ensureCacheDir :: "cache_fs \<Rightarrow> (fs_error + unit) \<times> cache_fs" where
  "ensureCacheDir fs =
     (if dirExists fs then (Inr (), fs)
      else if mkdirFails fs then (Inl MkdirError, fs)
      else (Inr (), fs\<lparr>dirExists := True\<rparr>))"

text \<open>
  \<^verbatim>\<open>loadCache\<close>: both branches of its \<^verbatim>\<open>catch\<close> return \<^verbatim>\<open>null\<close>; the second one
  logs a warning first.
\<close>

definition loadCache :: "cache_fs \<Rightarrow> DiscoveryCacheEntry option" where
  "loadCache fs =
     (case cache_readFile fs of
        Inl err \<Rightarrow> (if err = ENOENT then None else None)
      | Inr text \<Rightarrow>
          (case JSON_parse text of
             Inl err \<Rightarrow> (if err = ENOENT then None else None)
           | Inr e \<Rightarrow> Some e))"

definition saveCache :: "cache_fs \<Rightarrow> DiscoveryCacheEntry \<Rightarrow> (fs_error + unit) \<times> cache_fs" where
  "saveCache fs cache =
     (case ensureCacheDir fs of
        (Inl err, fs') \<Rightarrow> (Inl err, fs')
      | (Inr u, fs') \<Rightarrow>
          (if writeFails fs' then (Inl WriteError, fs')
           else (Inr (), fs'\<lparr>cacheFile := Stored cache\<rparr>)))"

text \<open>\<^verbatim>\<open>new Date().toISOString().split('T')[0]\<close>: the text in front of the first T.\<close>

definition isoDate :: "string \<Rightarrow> string" where
  "isoDate now = takeWhile (\<lambda>c. c \<noteq> CHR ''T'') now"

text \<open>
  \<^verbatim>\<open>checkTodayExecution\<close>; \<open>now\<close> is the ISO text of \<^verbatim>\<open>new Date()\<close>. The \<^verbatim>\<open>catch\<close>
  turns whatever the body throws into \<^verbatim>\<open>null\<close>. The result is how the promise
  settles (\<open>Inl\<close> a rejection), with the storage afterwards.
\<close>

definition checkTodayExecution ::
  "cache_fs \<Rightarrow> string \<Rightarrow> (fs_error + DiscoveryCacheEntry option) \<times> cache_fs" where
  "checkTodayExecution fs now =
     (let today = isoDate now in
      case loadCache fs of
        None \<Rightarrow> (Inr None, fs)
      | Some cache \<Rightarrow>
          if lastDiscovery cache = today then
            (let cache' = cache\<lparr>requestCount := requestCount cache + 1\<rparr> in
             case saveCache fs cache' of
               (Inl err, fs') \<Rightarrow> (Inr None, fs')
             | (Inr u, fs') \<Rightarrow> (Inr (Some cache'), fs'))
          else (Inr None, fs))"




section \<open>MultiRegionResourceClient (multi-region-client)\<close>

text \<open>
  \<^verbatim>\<open>CloudResource\<close>. The fields \<^verbatim>\<open>id\<close> and \<^verbatim>\<open>type\<close> carry a prime, since the plain
  names are taken.
\<close>

record CloudResource =
  id' :: string
  name :: string
  type' :: string
  status :: string
  region :: string
  regionDisplayName :: string
  crossRegionId :: string
  details :: "string option"
  availability :: "string option"
  lastSeen :: "string option"
  resourceArn :: "string option"

record RegionResult =
  result_region :: string
  resources :: "CloudResource list"
  result_error :: "string option"

text \<open>
  The provider's records, with the fields the client reads; every field is optional
  in the SDK's types.
\<close>

record ec2_tag =
  Key :: "string option"
  Value :: "string option"

record ec2_instance =
  InstanceId :: "string option"
  Tags :: "ec2_tag list option"
  StateName :: "string option"
  InstanceType :: "string option"
  AvailabilityZone :: "string option"

record ec2_reservation =
  Instances :: "ec2_instance list option"

type_synonym ec2_response = "ec2_reservation list option"

record lambda_function =
  FunctionArn :: "string option"
  FunctionName :: "string option"
  Runtime :: "string option"

type_synonym lambda_response = "lambda_function list option"

text \<open>\<^verbatim>\<open>a || b\<close> on an optional string: \<^verbatim>\<open>undefined\<close> and the empty string are falsy.\<close>

definition orElse :: "string option \<Rightarrow> string \<Rightarrow> string" where
  "orElse a b = (case a of None \<Rightarrow> b | Some s \<Rightarrow> if s = [] then b else s)"

text \<open>An optional string inside a template literal: \<^verbatim>\<open>undefined\<close> prints as such.\<close>

definition tmpl :: "string option \<Rightarrow> string" where
  "tmpl a = (case a of None \<Rightarrow> ''undefined'' | Some s \<Rightarrow> s)"

definition regionNames :: "(string \<times> string) list" where
  "regionNames =
     [(''us-east-1'', ''US East (N. Virginia)''),
      (''us-east-2'', ''US East (Ohio)''),
      (''us-west-1'', ''US West (N. California)''),
      (''us-west-2'', ''US West (Oregon)''),
      (''eu-west-1'', ''Europe (Ireland)''),
      (''eu-west-2'', ''Europe (London)''),
      (''eu-west-3'', ''Europe (Paris)''),
      (''eu-central-1'', ''Europe (Frankfurt)''),
      (''eu-north-1'', ''Europe (Stockholm)''),
      (''ap-northeast-1'', ''Asia Pacific (Tokyo)''),
      (''ap-northeast-2'', ''Asia Pacific (Seoul)''),
      (''ap-northeast-3'', ''Asia Pacific (Osaka)''),
      (''ap-southeast-1'', ''Asia Pacific (Singapore)''),
      (''ap-southeast-2'', ''Asia Pacific (Sydney)''),
      (''ap-south-1'', ''Asia Pacific (Mumbai)''),
      (''ap-east-1'', ''Asia Pacific (Hong Kong)''),
      (''ca-central-1'', ''Canada (Central)''),
      (''sa-east-1'', ''South America (S'' @ [CHR 0xE3] @ ''o Paulo)''),
      (''af-south-1'', ''Africa (Cape Town)''),
      (''me-south-1'', ''Middle East (Bahrain)'')]"

definition getRegionDisplayName :: "string \<Rightarrow> string" where
  "getRegionDisplayName r = orElse (map_of regionNames r) r"

text \<open>
  One entry of \<^verbatim>\<open>getEC2Resources\<close> and of \<^verbatim>\<open>getLambdaResources\<close>; \<open>now\<close> is the
  ISO text of \<^verbatim>\<open>new Date()\<close>.
\<close>

definition ec2Resource :: "string \<Rightarrow> string \<Rightarrow> ec2_instance \<Rightarrow> CloudResource" where
  "ec2Resource r now instance =
     (let nameTag =
            (case Tags instance of
               None \<Rightarrow> None
             | Some tags \<Rightarrow>
                 (case find (\<lambda>t. Key t = Some ''Name'') tags of
                    None \<Rightarrow> None
                  | Some t \<Rightarrow> Value t));
          instanceName = orElse nameTag (orElse (InstanceId instance) ''Unknown'')
      in \<lparr>id' = orElse (InstanceId instance) ''unknown'',
          name = instanceName,
          type' = ''EC2'',
          status = orElse (StateName instance) ''unknown'',
          region = r,
          regionDisplayName = getRegionDisplayName r,
          crossRegionId = ''ec2-'' @ r @ ''-'' @ tmpl (InstanceId instance),
          details = InstanceType instance,
          availability = Some (orElse (AvailabilityZone instance) r),
          lastSeen = Some now,
          resourceArn =
            Some (''arn:aws:ec2:'' @ r @ '':*:instance/'' @ tmpl (InstanceId instance))\<rparr>)"

definition lambdaResource :: "string \<Rightarrow> string \<Rightarrow> lambda_function \<Rightarrow> CloudResource" where
  "lambdaResource r now fn =
     \<lparr>id' = orElse (FunctionArn fn) ''unknown'',
      name = orElse (FunctionName fn) ''Unknown'',
      type' = ''Lambda'',
      status = ''Active'',
      region = r,
      regionDisplayName = getRegionDisplayName r,
      crossRegionId = ''lambda-'' @ r @ ''-'' @ tmpl (FunctionName fn),
      details = Runtime fn,
      availability = Some r,
      lastSeen = Some now,
      resourceArn = FunctionArn fn\<rparr>"

text \<open>
  The provider as the client meets it: per region, how the EC2 query and the Lambda
  query answer (\<open>Inl\<close> the error the SDK throws), and which of the two settles first
  when they run side by side.
\<close>

record provider =
  ec2_send :: "string \<Rightarrow> js_error + ec2_response"
  lambda_send :: "string \<Rightarrow> js_error + lambda_response"
  lambdaSettlesFirst :: "string \<Rightarrow> bool"

definition getEC2Resources :: "provider \<Rightarrow> string \<Rightarrow> string \<Rightarrow> js_error + CloudResource list" where
  "getEC2Resources p now r =
     (case ec2_send p r of
        Inl e \<Rightarrow> Inl e
      | Inr response \<Rightarrow>
          Inr (case response of
                 None \<Rightarrow> []
               | Some reservations \<Rightarrow>
                   concat (map (\<lambda>reservation.
                      case Instances reservation of
                        None \<Rightarrow> []
                      | Some instances \<Rightarrow> map (ec2Resource r now) instances) reservations)))"

definition getLambdaResources :: "provider \<Rightarrow> string \<Rightarrow> string \<Rightarrow> js_error + CloudResource list" where
  "getLambdaResources p now r =
     (case lambda_send p r of
        Inl e \<Rightarrow> Inl e
      | Inr response \<Rightarrow>
          Inr (case response of
                 None \<Rightarrow> []
               | Some functions \<Rightarrow> map (lambdaResource r now) functions))"

text \<open>
  \<^verbatim>\<open>Promise.all\<close> of two promises: both values when both fulfil, otherwise the
  reason of the promise that rejects first.
\<close>

definition promiseAll2 :: "bool \<Rightarrow> js_error + 'a \<Rightarrow> js_error + 'b \<Rightarrow> js_error + 'a \<times> 'b" where
  "promiseAll2 secondFirst p1 p2 =
     (case p1 of
        Inr a \<Rightarrow> (case p2 of Inr b \<Rightarrow> Inr (a, b) | Inl e2 \<Rightarrow> Inl e2)
      | Inl e1 \<Rightarrow> (case p2 of Inr b \<Rightarrow> Inl e1 | Inl e2 \<Rightarrow> Inl (if secondFirst then e2 else e1)))"

text \<open>
  \<^verbatim>\<open>getResourcesFromRegion\<close>; the result is how its promise settles (\<open>Inl\<close> a
  rejection).
\<close>

definition getResourcesFromRegion :: "provider \<Rightarrow> string \<Rightarrow> string \<Rightarrow> js_error + RegionResult" where
  "getResourcesFromRegion p now r =
     (case promiseAll2 (lambdaSettlesFirst p r) (getEC2Resources p now r)
             (getLambdaResources p now r) of
        Inr (ec2Resources, lambdaResources) \<Rightarrow>
          Inr \<lparr>result_region = r, resources = ec2Resources @ lambdaResources,
                result_error = None\<rparr>
      | Inl e \<Rightarrow>
          Inr \<lparr>result_region = r, resources = [], result_error = Some (error_message e)\<rparr>)"

text \<open>
  The \<^verbatim>\<open>forEach\<close> over the settled results of \<^verbatim>\<open>getResourcesFromAllRegions\<close>: one
  step takes the two arrays \<open>(allResources, errors)\<close>, a region and its settled
  result. An error text is truthy unless it is empty.
\<close>

definition collectResult ::
  "CloudResource list \<times> string list \<Rightarrow> string \<times> (js_error + RegionResult)
     \<Rightarrow> CloudResource list \<times> string list" where
  "collectResult acc entry =
     (case acc of (allResources, errors) \<Rightarrow>
      case entry of (r, settled) \<Rightarrow>
        (case settled of
           Inr regionResult \<Rightarrow>
             (case result_error regionResult of
                Some msg \<Rightarrow>
                  if msg \<noteq> [] then (allResources, errors @ [r @ '': '' @ msg])
                  else (allResources @ resources regionResult, errors)
              | None \<Rightarrow> (allResources @ resources regionResult, errors))
         | Inl reason \<Rightarrow> (allResources, errors @ [r @ '': '' @ error_message reason])))"

text \<open>
  \<^verbatim>\<open>getResourcesFromAllRegions\<close>: \<^verbatim>\<open>Promise.allSettled\<close> keeps the results in the
  order of the regions. The result is how the promise settles (\<open>Inl\<close> a rejection).
\<close>

definition getResourcesFromAllRegions ::
  "provider \<Rightarrow> string \<Rightarrow> string list \<Rightarrow> js_error + CloudResource list" where
  "getResourcesFromAllRegions p now regions =
     (if length regions = 0 then Inr []
      else
        (let results = map (getResourcesFromRegion p now) regions;
             (allResources, errors) = foldl collectResult ([], []) (zip regions results)
         in Inr allResources))"


section \<open>Notions used in the statements\<close>

text \<open>
  A plain token: not empty, and free of white space and of commas. Every name on
  the allow-list of \<open>ConfigManager\<close> is one.
\<close>

definition plainToken :: "string \<Rightarrow> bool" where
  "plainToken r = (r \<noteq> [] \<and> list_all (\<lambda>c. \<not> isSpace c \<and> c \<noteq> CHR '','') r)"





text \<open>
  A region succeeds when both of its queries answer; its items are then the EC2
  items followed by the Lambda items.
\<close>

definition regionSucceeds :: "provider \<Rightarrow> string \<Rightarrow> bool" where
  "regionSucceeds p r =
     (case ec2_send p r of
        Inl e \<Rightarrow> False
      | Inr a \<Rightarrow> (case lambda_send p r of Inl e \<Rightarrow> False | Inr b \<Rightarrow> True))"

definition regionItems :: "provider \<Rightarrow> string \<Rightarrow> string \<Rightarrow> CloudResource list" where
  "regionItems p now r =
     (case getEC2Resources p now r of Inl e \<Rightarrow> [] | Inr items \<Rightarrow> items) @
     (case getLambdaResources p now r of Inl e \<Rightarrow> [] | Inr items \<Rightarrow> items)"






text \<open>
  A provider for the examples: every region has one running instance \<^verbatim>\<open>i-123\<close> and
  one function \<^verbatim>\<open>report\<close>, but the EC2 query of us-west-2 is refused.
\<close>

definition exampleProvider :: provider where
  "exampleProvider =
     \<lparr>ec2_send = (\<lambda>r. if r = ''us-west-2''
                       then Inl (Error ''UnauthorizedOperation'' ''You are not authorized'')
                       else Inr (Some [\<lparr>Instances = Some
                              [\<lparr>InstanceId = Some ''i-123'', Tags = None,
                                StateName = Some ''running'', InstanceType = None,
                                AvailabilityZone = None\<rparr>]\<rparr>])),
      lambda_send = (\<lambda>r. Inr (Some [\<lparr>FunctionArn = None, FunctionName = Some ''report'',
                                       Runtime = None\<rparr>])),
      lambdaSettlesFirst = (\<lambda>r. True)\<rparr>"


section \<open>Verification: arrays without duplicates\<close>

lemma foldl_setAdd_set: "set (foldl setAdd acc xs) = set acc \<union> set xs"
  by (induction xs arbitrary: acc) (auto simp: setAdd_def)

lemma foldl_setAdd_distinct: "distinct acc \<Longrightarrow> distinct (foldl setAdd acc xs)"
  by (induction xs arbitrary: acc) (auto simp: setAdd_def)

lemma foldl_setAdd_id: "distinct (acc @ xs) \<Longrightarrow> foldl setAdd acc xs = acc @ xs"
  by (induction xs arbitrary: acc) (auto simp: setAdd_def)

lemma set_uniqueList [simp]: "set (uniqueList xs) = set xs"
  by (simp add: uniqueList_def foldl_setAdd_set)

lemma distinct_uniqueList [simp]: "distinct (uniqueList xs)"
  by (simp add: uniqueList_def foldl_setAdd_distinct)

lemma uniqueList_distinct_id: "distinct xs \<Longrightarrow> uniqueList xs = xs"
  using foldl_setAdd_id[of "[]" xs] by (simp add: uniqueList_def)

lemma length_uniqueList: "length (uniqueList xs) = card (set xs)"
  using distinct_card[of "uniqueList xs"] by simp


section \<open>Verification: the retry executor\<close>

lemma withRetryLoop_lastError:
  "attempt \<le> maxRetries cfg \<Longrightarrow>
   withRetryLoop cfg operation attempt l1 n slept =
   withRetryLoop cfg operation attempt l2 n slept"
  by (subst withRetryLoop.simps, subst (2) withRetryLoop.simps) simp

lemma withRetryLoop_success:
  "attempt \<le> maxRetries cfg \<Longrightarrow> operation n = Inr v \<Longrightarrow>
   withRetryLoop cfg operation attempt l n slept =
     \<lparr>outcome = Inr v, calls = Suc n, sleeps = slept\<rparr>"
  by (subst withRetryLoop.simps) auto

lemma withRetryLoop_stop:
  "attempt \<le> maxRetries cfg \<Longrightarrow> operation n = Inl e \<Longrightarrow>
   attempt = maxRetries cfg \<or> \<not> isRetryableError e \<Longrightarrow>
   withRetryLoop cfg operation attempt l n slept =
     \<lparr>outcome = Inl (Some e), calls = Suc n, sleeps = slept\<rparr>"
  by (subst withRetryLoop.simps) auto

lemma withRetryLoop_retry:
  "attempt < maxRetries cfg \<Longrightarrow> operation n = Inl e \<Longrightarrow> isRetryableError e \<Longrightarrow>
   withRetryLoop cfg operation attempt l n slept =
     withRetryLoop cfg operation (attempt + 1) (Some e) (Suc n)
       (slept @ [backoffDelay cfg attempt])"
  by (subst withRetryLoop.simps) (simp add: Let_def)

text \<open>Once the body of the loop is entered, the operation is called at least once more.\<close>

lemma withRetryLoop_calls_ge:
  "attempt \<le> maxRetries cfg \<Longrightarrow>
   Suc n \<le> calls (withRetryLoop cfg operation attempt l n slept)"
proof (induction cfg operation attempt l n slept rule: withRetryLoop.induct)
  case (1 cfg operation attempt l n slept)
  show ?case
  proof (cases "operation n")
    case (Inr v)
    with 1(2) show ?thesis by (simp add: withRetryLoop_success)
  next
    case (Inl e)
    show ?thesis
    proof (cases "attempt = maxRetries cfg \<or> \<not> isRetryableError e")
      case True
      with Inl 1(2) show ?thesis by (simp add: withRetryLoop_stop)
    next
      case False
      then have lt: "attempt < maxRetries cfg" and re: "isRetryableError e"
        using 1(2) by auto
      have "Suc (Suc n) \<le> calls (withRetryLoop cfg operation (attempt + 1) (Some e) (Suc n)
               (slept @ [backoffDelay cfg attempt]))"
        using 1(1)[OF 1(2) Inl _ _ refl] lt re by simp
      then show ?thesis
        using withRetryLoop_retry[of attempt cfg operation n e l slept] lt Inl re by simp
    qed
  qed
qed

text \<open>The loop only ever appends to the delays slept so far.\<close>

lemma withRetryLoop_sleeps_prefix:
  "\<exists>rest. sleeps (withRetryLoop cfg operation attempt l n slept) = slept @ rest"
proof (induction cfg operation attempt l n slept rule: withRetryLoop.induct)
  case (1 cfg operation attempt l n slept)
  show ?case
  proof (cases "attempt \<le> maxRetries cfg")
    case False
    then show ?thesis by (subst withRetryLoop.simps) simp
  next
    case le: True
    show ?thesis
    proof (cases "operation n")
      case (Inr v)
      with le show ?thesis by (simp add: withRetryLoop_success)
    next
      case (Inl e)
      show ?thesis
      proof (cases "attempt = maxRetries cfg \<or> \<not> isRetryableError e")
        case True
        with Inl le show ?thesis by (simp add: withRetryLoop_stop)
      next
        case False
        then have lt: "attempt < maxRetries cfg" and re: "isRetryableError e"
          using le by auto
        have "\<exists>rest. sleeps (withRetryLoop cfg operation (attempt + 1) (Some e) (Suc n)
                 (slept @ [backoffDelay cfg attempt]))
               = (slept @ [backoffDelay cfg attempt]) @ rest"
          using 1[OF le Inl _ _ refl] lt re by simp
        then show ?thesis
          using withRetryLoop_retry[of attempt cfg operation n e l slept] lt Inl re
          by auto
      qed
    qed
  qed
qed

text \<open>
  A run of \<open>j\<close> failures that are all retryable, none of them the last attempt, takes
  the loop \<open>j\<close> rounds further and sleeps the \<open>j\<close> backoff delays.
\<close>

lemma withRetryLoop_skip:
  "(\<forall>i<j. \<exists>e. operation (n + i) = Inl e \<and> isRetryableError e) \<Longrightarrow>
   attempt + int j \<le> maxRetries cfg \<Longrightarrow>
   withRetryLoop cfg operation attempt l n slept =
     withRetryLoop cfg operation (attempt + int j) l (n + j)
       (slept @ map (\<lambda>i. backoffDelay cfg (attempt + int i)) [0..<j])"
proof (induction j arbitrary: l)
  case 0
  then show ?case by simp
next
  case (Suc j)
  have pre: "\<forall>i<j. \<exists>e. operation (n + i) = Inl e \<and> isRetryableError e"
    using Suc.prems(1) by auto
  have le: "attempt + int j \<le> maxRetries cfg" using Suc.prems(2) by simp
  obtain e where e: "operation (n + j) = Inl e" "isRetryableError e"
    using Suc.prems(1) by blast
  have lt: "attempt + int j < maxRetries cfg" using Suc.prems(2) by simp
  have "withRetryLoop cfg operation attempt l n slept =
        withRetryLoop cfg operation (attempt + int j) l (n + j)
          (slept @ map (\<lambda>i. backoffDelay cfg (attempt + int i)) [0..<j])"
    using Suc.IH[OF pre le] .
  also have "\<dots> = withRetryLoop cfg operation (attempt + int j + 1) (Some e) (Suc (n + j))
          ((slept @ map (\<lambda>i. backoffDelay cfg (attempt + int i)) [0..<j]) @
             [backoffDelay cfg (attempt + int j)])"
    using lt e by (rule withRetryLoop_retry)
  also have "\<dots> = withRetryLoop cfg operation (attempt + int (Suc j)) l (n + Suc j)
          (slept @ map (\<lambda>i. backoffDelay cfg (attempt + int i)) [0..<Suc j])"
  proof -
    have a: "attempt + int j + 1 = attempt + int (Suc j)" by simp
    have b: "Suc (n + j) = n + Suc j" by simp
    have c: "(slept @ map (\<lambda>i. backoffDelay cfg (attempt + int i)) [0..<j]) @
               [backoffDelay cfg (attempt + int j)] =
             slept @ map (\<lambda>i. backoffDelay cfg (attempt + int i)) [0..<Suc j]" by simp
    show ?thesis unfolding a b c using Suc.prems(2) by (rule withRetryLoop_lastError)
  qed
  finally show ?case .
qed

lemma withRetryLoop_skip0:
  assumes "\<forall>i<j. \<exists>e. operation i = Inl e \<and> isRetryableError e"
    and "int j \<le> maxRetries cfg"
  shows "withRetryLoop cfg operation 0 None 0 [] =
     withRetryLoop cfg operation (int j) None j (map (\<lambda>i. backoffDelay cfg (int i)) [0..<j])"
  using withRetryLoop_skip[of j operation 0 0 cfg None "[]"] assms by simp

text \<open>
  The classifier of the discovery API calls an error whose message contains
  "access denied" a recoverable permission error; the retry loop's own test calls
  the same error not retryable.
\<close>

lemma access_denied_recoverable_not_retryable:
  assumes "includesStr (toLowerCase (error_message e)) ''access denied''"
  shows "\<not> isRetryableError e \<and> recoverable (handleCostExplorerError e) \<and>
     errorCode (handleCostExplorerError e) = Some ''COST_EXPLORER_PERMISSION_DENIED''"
  using assms
  by (simp add: isRetryableError_def nonRetryableErrors_def handleCostExplorerError_def Let_def)

text \<open>
  Claim C2, as stated, fails: with the default policy (three retries allowed) an
  operation that throws "Access Denied" is classified as a recoverable permission
  error, yet \<open>withRetry\<close> calls it once, sleeps never and throws the error on.
\<close>

theorem withRetry_permission_denied_not_retried:
  "recoverable (handleCostExplorerError (Error ''AccessDeniedException'' ''Access Denied'')) \<and>
   errorCode (handleCostExplorerError (Error ''AccessDeniedException'' ''Access Denied'')) =
     Some ''COST_EXPLORER_PERMISSION_DENIED'' \<and>
   maxRetries (mergeRetryConfig DEFAULT_RETRY_CONFIG emptyRetryConfig) = 3 \<and>
   withRetry (\<lambda>n. Inl (Error ''AccessDeniedException'' ''Access Denied'') :: js_error + unit)
       emptyRetryConfig =
     \<lparr>outcome = Inl (Some (Error ''AccessDeniedException'' ''Access Denied'')),
      calls = 1, sleeps = []\<rparr>"
  by (simp add: handleCostExplorerError_def toLowerCase_def lowerChar_def withRetry_def
      mergeRetryConfig_def DEFAULT_RETRY_CONFIG_def emptyRetryConfig_def withRetryLoop.simps
      isRetryableError_def nonRetryableErrors_def)

text \<open>
  Claim C2, amended: let attempt \<open>j\<close> fail with error \<open>e\<close> before the last allowed
  attempt, every earlier attempt having failed with a retryable error. Then
  \<open>withRetry\<close> stops at once and throws \<open>e\<close> itself, after \<open>j + 1\<close> calls, exactly when
  \<open>isRetryableError e\<close> is false, that is when the lower-cased message contains one of
  "unauthorized", "access denied", "invalid region", "permission denied",
  "no such file"; otherwise it sleeps the backoff delay of attempt \<open>j\<close> and calls the
  operation again. The \<open>recoverable\<close> flag of the classifiers plays no part: an
  "access denied" error is recoverable for the classifier and is not retried.
\<close>

theorem withRetry_stops_iff_not_retryable:
  assumes "\<forall>i<j. \<exists>e'. operation i = Inl e' \<and> isRetryableError e'"
      and "operation j = Inl e"
      and "int j < maxRetries (mergeRetryConfig DEFAULT_RETRY_CONFIG config)"
  shows "(if isRetryableError e
          then Suc (Suc j) \<le> calls (withRetry operation config) \<and>
               take (Suc j) (sleeps (withRetry operation config)) =
                 map (\<lambda>i. backoffDelay (mergeRetryConfig DEFAULT_RETRY_CONFIG config) (int i))
                   [0..<Suc j]
          else withRetry operation config =
                 \<lparr>outcome = Inl (Some e), calls = Suc j,
                  sleeps =
                    map (\<lambda>i. backoffDelay (mergeRetryConfig DEFAULT_RETRY_CONFIG config) (int i))
                      [0..<j]\<rparr>) \<and>
         (isRetryableError e \<longleftrightarrow>
            \<not> list_ex (includesStr (toLowerCase (error_message e)))
                [''unauthorized'', ''access denied'', ''invalid region'',
                 ''permission denied'', ''no such file'']) \<and>
         (includesStr (toLowerCase (error_message e)) ''access denied'' \<longrightarrow>
            recoverable (handleCostExplorerError e) \<and> \<not> isRetryableError e)"
proof -
  let ?cfg = "mergeRetryConfig DEFAULT_RETRY_CONFIG config"
  let ?ds = "map (\<lambda>i. backoffDelay ?cfg (int i)) [0..<j]"
  have start: "withRetry operation config = withRetryLoop ?cfg operation (int j) None j ?ds"
    unfolding withRetry_def using assms(1,3) by (intro withRetryLoop_skip0) auto
  have first: "if isRetryableError e
          then Suc (Suc j) \<le> calls (withRetry operation config) \<and>
               take (Suc j) (sleeps (withRetry operation config)) =
                 map (\<lambda>i. backoffDelay ?cfg (int i)) [0..<Suc j]
          else withRetry operation config =
                 \<lparr>outcome = Inl (Some e), calls = Suc j, sleeps = ?ds\<rparr>"
  proof (cases "isRetryableError e")
    case False
    have "withRetryLoop ?cfg operation (int j) None j ?ds =
            \<lparr>outcome = Inl (Some e), calls = Suc j, sleeps = ?ds\<rparr>"
      using assms(2,3) False by (intro withRetryLoop_stop) auto
    with start False show ?thesis by simp
  next
    case True
    let ?next = "withRetryLoop ?cfg operation (int j + 1) (Some e) (Suc j)
                   (?ds @ [backoffDelay ?cfg (int j)])"
    have step: "withRetryLoop ?cfg operation (int j) None j ?ds = ?next"
      using assms(3,2) True by (rule withRetryLoop_retry)
    have c: "Suc (Suc j) \<le> calls ?next"
      using assms(3) by (intro withRetryLoop_calls_ge) auto
    obtain rest where "sleeps ?next = (?ds @ [backoffDelay ?cfg (int j)]) @ rest"
      using withRetryLoop_sleeps_prefix by blast
    then have "take (Suc j) (sleeps ?next) = ?ds @ [backoffDelay ?cfg (int j)]" by simp
    with c start step True show ?thesis by simp
  qed
  have second: "isRetryableError e \<longleftrightarrow>
            \<not> list_ex (includesStr (toLowerCase (error_message e)))
                [''unauthorized'', ''access denied'', ''invalid region'',
                 ''permission denied'', ''no such file'']"
    by (simp add: isRetryableError_def nonRetryableErrors_def Let_def)
  have third: "includesStr (toLowerCase (error_message e)) ''access denied'' \<longrightarrow>
            recoverable (handleCostExplorerError e) \<and> \<not> isRetryableError e"
    using access_denied_recoverable_not_retryable by blast
  from first second third show ?thesis by blast
qed

text \<open>
  The amended claim at work: the first attempt fails with a timeout, which is
  retried after the base delay; the second fails with "Access Denied", which stops
  the run at two calls although two more retries were allowed.
\<close>

theorem withRetry_stops_iff_not_retryable_witness:
  "withRetry (\<lambda>n. if n = 0 then Inl (Error ''TimeoutError'' ''Request timeout occurred'')
                   else Inl (Error ''AccessDeniedException'' ''Access Denied'') :: js_error + unit)
      emptyRetryConfig =
     \<lparr>outcome = Inl (Some (Error ''AccessDeniedException'' ''Access Denied'')),
      calls = 2, sleeps = [1000]\<rparr>"
proof -
  let ?op = "\<lambda>n. if n = 0 then Inl (Error ''TimeoutError'' ''Request timeout occurred'')
                   else Inl (Error ''AccessDeniedException'' ''Access Denied'') :: js_error + unit"
  let ?e = "Error ''AccessDeniedException'' ''Access Denied''"
  have h1: "\<forall>i<Suc 0. \<exists>e'. ?op i = Inl e' \<and> isRetryableError e'"
    by (simp add: isRetryableError_def nonRetryableErrors_def toLowerCase_def lowerChar_def)
  have h2: "?op (Suc 0) = Inl ?e" by simp
  have h3: "int (Suc 0) < maxRetries (mergeRetryConfig DEFAULT_RETRY_CONFIG emptyRetryConfig)"
    by (simp add: mergeRetryConfig_def DEFAULT_RETRY_CONFIG_def emptyRetryConfig_def)
  have nr: "\<not> isRetryableError ?e"
    by (simp add: isRetryableError_def nonRetryableErrors_def toLowerCase_def lowerChar_def)
  show ?thesis
    using withRetry_stops_iff_not_retryable[OF h1 h2 h3] nr
    by (simp add: backoffDelay_def mergeRetryConfig_def DEFAULT_RETRY_CONFIG_def
        emptyRetryConfig_def)
qed

text \<open>
  Claim C6: under a policy with \<open>maxRetries = 2\<close>, an operation that fails on every
  attempt with a retryable error is called exactly three times, and what
  \<open>withRetry\<close> throws is the very error of the third call.
\<close>

theorem withRetry_maxRetries_2_three_calls:
  assumes "maxRetries_opt config = Some 2"
      and "\<forall>n. \<exists>e. operation n = Inl e \<and> isRetryableError e"
  shows "\<exists>e. operation 2 = Inl e \<and>
     outcome (withRetry operation config) = Inl (Some e) \<and>
     calls (withRetry operation config) = 3"
proof -
  let ?cfg = "mergeRetryConfig DEFAULT_RETRY_CONFIG config"
  have m: "maxRetries ?cfg = 2" using assms(1) by (simp add: mergeRetryConfig_def)
  obtain e where e: "operation 2 = Inl e" using assms(2) by blast
  have "withRetry operation config =
        withRetryLoop ?cfg operation (int 2) None 2 (map (\<lambda>i. backoffDelay ?cfg (int i)) [0..<2])"
    unfolding withRetry_def using assms(2) m by (intro withRetryLoop_skip0) auto
  also have "\<dots> = \<lparr>outcome = Inl (Some e), calls = Suc 2,
                     sleeps = map (\<lambda>i. backoffDelay ?cfg (int i)) [0..<2]\<rparr>"
    using e m by (intro withRetryLoop_stop) auto
  finally show ?thesis using e by simp
qed

theorem withRetry_maxRetries_2_three_calls_witness:
  "outcome (withRetry (\<lambda>n. Inl (Error ''Error'' ''Temporary failure'') :: js_error + unit)
      \<lparr>maxRetries_opt = Some 2, baseDelay_opt = Some 100, maxDelay_opt = Some 1000,
       backoffMultiplier_opt = None\<rparr>) = Inl (Some (Error ''Error'' ''Temporary failure'')) \<and>
   calls (withRetry (\<lambda>n. Inl (Error ''Error'' ''Temporary failure'') :: js_error + unit)
      \<lparr>maxRetries_opt = Some 2, baseDelay_opt = Some 100, maxDelay_opt = Some 1000,
       backoffMultiplier_opt = None\<rparr>) = 3"
proof -
  let ?op = "\<lambda>n::nat. Inl (Error ''Error'' ''Temporary failure'') :: js_error + unit"
  let ?c = "\<lparr>maxRetries_opt = Some 2, baseDelay_opt = Some 100, maxDelay_opt = Some 1000,
       backoffMultiplier_opt = None\<rparr>"
  have h1: "maxRetries_opt ?c = Some 2" by simp
  have h2: "\<forall>n. \<exists>e. ?op n = Inl e \<and> isRetryableError e"
    by (simp add: isRetryableError_def nonRetryableErrors_def toLowerCase_def lowerChar_def)
  show ?thesis
    using withRetry_maxRetries_2_three_calls[OF h1 h2] by simp
qed


section \<open>Verification: region detection\<close>

text \<open>The two deduplicated partitions together hold every distinct raw token once.\<close>

lemma filterRegions_total:
  "length (fst (filterRegions regions b)) + length (snd (filterRegions regions b)) =
   card (set regions)"
proof -
  let ?P = RegionDetector_isValidAWSRegion
  have "card (set (filter ?P regions)) + card (set (filter (\<lambda>r. \<not> ?P r) regions)) =
        card (set (filter ?P regions) \<union> set (filter (\<lambda>r. \<not> ?P r) regions))"
    by (intro card_Un_disjoint[symmetric]) auto
  also have "set (filter ?P regions) \<union> set (filter (\<lambda>r. \<not> ?P r) regions) = set regions"
    by auto
  finally show ?thesis by (simp add: filterRegions_def Let_def length_uniqueList)
qed

lemma detectActiveRegions_shape:
  assumes "detectActiveRegions send config t0 t1 = Inr result"
  shows "\<exists>response.
    totalFound result = length (allRegionsOf response) \<and>
    activeRegions result =
      fst (filterRegions (allRegionsOf response)
             (filterInvalidRegions (mergeDetectionConfig defaultConfig config))) \<and>
    invalidRegions result =
      snd (filterRegions (allRegionsOf response)
             (filterInvalidRegions (mergeDetectionConfig defaultConfig config)))"
proof -
  define pol where "pol = (case retryConfig (mergeDetectionConfig defaultConfig config) of
                             Some c \<Rightarrow> c | None \<Rightarrow> emptyRetryConfig)"
  define out where "out = outcome (withRetry send pol)"
  define fi where "fi = filterInvalidRegions (mergeDetectionConfig defaultConfig config)"
  have d: "detectActiveRegions send config t0 t1 =
     (case out of
        Inl thrown \<Rightarrow> Inl thrown
      | Inr response \<Rightarrow>
         (let allRegions = allRegionsOf response;
              (validRegions, invalidRegions) = filterRegions allRegions fi
          in Inr \<lparr>activeRegions = validRegions, invalidRegions = invalidRegions,
                  totalFound = length allRegions, executionTime = t1 - t0,
                  costIncurred = 1 / 100\<rparr>))"
    unfolding detectActiveRegions_def out_def pol_def fi_def Let_def ..
  show ?thesis
  proof (cases out)
    case (Inl a)
    with d assms show ?thesis by simp
  next
    case (Inr response)
    with d assms have "result =
        (let allRegions = allRegionsOf response;
             (validRegions, invalidRegions) = filterRegions allRegions fi
         in \<lparr>activeRegions = validRegions, invalidRegions = invalidRegions,
             totalFound = length allRegions, executionTime = t1 - t0,
             costIncurred = 1 / 100\<rparr>)"
      by (simp add: Let_def split: prod.splits)
    then show ?thesis
      unfolding fi_def by (intro exI[of _ response]) (simp add: Let_def split: prod.splits)
  qed
qed

text \<open>
  Whenever a detection returns, \<open>totalFound\<close> counts the raw tokens, and it equals
  the sum of the two partition sizes exactly when no raw token is repeated.
\<close>

lemma detectActiveRegions_totalFound_iff_distinct:
  assumes "detectActiveRegions send config t0 t1 = Inr result"
  shows "\<exists>response. totalFound result = length (allRegionsOf response) \<and>
    (totalFound result = length (activeRegions result) + length (invalidRegions result)
       \<longleftrightarrow> distinct (allRegionsOf response))"
proof -
  let ?fi = "filterInvalidRegions (mergeDetectionConfig defaultConfig config)"
  obtain response where r: "totalFound result = length (allRegionsOf response)"
    "activeRegions result = fst (filterRegions (allRegionsOf response) ?fi)"
    "invalidRegions result = snd (filterRegions (allRegionsOf response) ?fi)"
    using detectActiveRegions_shape[OF assms] by blast
  have "length (activeRegions result) + length (invalidRegions result) =
        card (set (allRegionsOf response))"
    unfolding r by (rule filterRegions_total)
  then have "totalFound result = length (activeRegions result) + length (invalidRegions result)
       \<longleftrightarrow> distinct (allRegionsOf response)"
    unfolding r(1)
    using card_distinct[of "allRegionsOf response"] distinct_card[of "allRegionsOf response"]
    by metis
  with r(1) show ?thesis by blast
qed

lemma us_east_1_valid: "RegionDetector_isValidAWSRegion ''us-east-1''"
  by (simp add: RegionDetector_isValidAWSRegion_def regionPattern_def isLower_def isDigit_def
      RegionDetector_validRegions_def)

lemma withRetry_first_success:
  "withRetry (\<lambda>n. Inr v)
     \<lparr>maxRetries_opt = Some 2, baseDelay_opt = Some 1000, maxDelay_opt = Some 5000,
      backoffMultiplier_opt = None\<rparr> = \<lparr>outcome = Inr v, calls = 1, sleeps = []\<rparr>"
  by (simp add: withRetry_def withRetryLoop.simps mergeRetryConfig_def DEFAULT_RETRY_CONFIG_def)

lemma filterRegions_repeated_token:
  "filterRegions [''us-east-1'', ''us-east-1''] b = ([''us-east-1''], [])"
  by (simp add: filterRegions_def us_east_1_valid uniqueList_def setAdd_def)

text \<open>
  Claim C1 (\<open>totalFound\<close> equals the sizes of the two deduplicated partitions
  together) at a response that names the region us-east-1 twice, the case for which
  \<open>filterRegions\<close> removes duplicates: \<open>detectActiveRegions\<close> reports
  \<open>totalFound = 2\<close> beside one active and no invalid region, and the detector's own
  \<open>validateDetectionResult\<close> rejects that result for the mismatch of the total.
\<close>

theorem detectActiveRegions_repeated_token_total:
  "detectActiveRegions (\<lambda>n. Inr (Some [Some ''us-east-1'', Some ''us-east-1'']))
      emptyDetectionConfig 0 5 =
     Inr \<lparr>activeRegions = [''us-east-1''], invalidRegions = [], totalFound = 2,
          executionTime = 5, costIncurred = 1 / 100\<rparr> \<and>
   validateDetectionResult
     \<lparr>activeRegions = [''us-east-1''], invalidRegions = [], totalFound = 2,
      executionTime = 5, costIncurred = 1 / 100\<rparr> = (False, [TotalMismatch])"
  by (simp add: detectActiveRegions_def emptyDetectionConfig_def mergeDetectionConfig_def
      defaultConfig_def withRetry_first_success allRegionsOf_def filterRegions_repeated_token
      validateDetectionResult_def detectionIssues_def)


section \<open>Verification: the region list round trip\<close>

lemma validRegions_plain: "list_all plainToken ConfigManager_validRegions"
  by (simp add: ConfigManager_validRegions_def plainToken_def isSpace_def)

lemma isValidAWSRegion_plain: "isValidAWSRegion r \<Longrightarrow> plainToken r"
  using validRegions_plain by (auto simp: isValidAWSRegion_def list_all_iff)

lemma dropWhile_none: "\<forall>c\<in>set xs. \<not> P c \<Longrightarrow> dropWhile P xs = xs"
  by (cases xs) auto

lemma trim_plain: "plainToken r \<Longrightarrow> trim r = r"
proof -
  assume p: "plainToken r"
  then have ns: "\<forall>c\<in>set r. \<not> isSpace c" by (auto simp: plainToken_def list_all_iff)
  have 1: "dropWhile isSpace r = r" using ns by (rule dropWhile_none)
  have 2: "dropWhile isSpace (rev r) = rev r" using ns by (intro dropWhile_none) simp
  show ?thesis by (simp add: trim_def 1 2)
qed

lemma trim_empty_iff: "trim s = [] \<longleftrightarrow> (\<forall>c\<in>set s. isSpace c)"
proof
  assume "trim s = []"
  then have "dropWhile isSpace (rev (dropWhile isSpace s)) = []" by (simp add: trim_def)
  then have "\<forall>c\<in>set (dropWhile isSpace s). isSpace c" by (simp add: dropWhile_eq_Nil_conv)
  then have "dropWhile isSpace s = []"
    using hd_dropWhile[of isSpace s] by (metis list.set_sel(1))
  then show "\<forall>c\<in>set s. isSpace c" by (simp add: dropWhile_eq_Nil_conv)
next
  assume "\<forall>c\<in>set s. isSpace c"
  then have d: "dropWhile isSpace s = []" by simp
  show "trim s = []" unfolding trim_def d by simp
qed

text \<open>Splitting reads a piece without separators in one go.\<close>

lemma splitFrom_no_sep:
  "sep \<notin> set x \<Longrightarrow> splitFrom sep cur (x @ rest) = splitFrom sep (cur @ x) rest"
  by (induction x arbitrary: cur) auto

lemma splitFrom_join:
  "\<forall>y\<in>set (x # xs). sep \<notin> set y \<Longrightarrow>
   splitFrom sep cur (joinStr [sep] (x # xs)) = (cur @ x) # xs"
proof (induction xs arbitrary: x cur)
  case Nil
  then show ?case using splitFrom_no_sep[of sep x cur "[]"] by simp
next
  case (Cons y ys)
  have "splitFrom sep cur (joinStr [sep] (x # y # ys)) =
        splitFrom sep cur (x @ (sep # joinStr [sep] (y # ys)))" by simp
  also have "\<dots> = splitFrom sep (cur @ x) (sep # joinStr [sep] (y # ys))"
    using Cons.prems by (intro splitFrom_no_sep) simp
  also have "\<dots> = (cur @ x) # splitFrom sep [] (joinStr [sep] (y # ys))" by simp
  also have "\<dots> = (cur @ x) # y # ys" using Cons.IH[of y "[]"] Cons.prems by simp
  finally show ?case .
qed

lemma split_join:
  "xs \<noteq> [] \<Longrightarrow> \<forall>y\<in>set xs. sep \<notin> set y \<Longrightarrow> splitStr sep (joinStr [sep] xs) = xs"
  using splitFrom_join[of _ _ sep "[]"] by (cases xs) (auto simp: splitStr_def)

lemma join_contains_head: "set x \<subseteq> set (joinStr sep (x # xs))"
  by (cases xs) auto

text \<open>
  Claim C7: for a list \<open>S\<close> of valid region names without repetition,
  \<open>parseRegions (formatRegions S)\<close> is \<open>S\<close> again, in the same order, and so also
  the same set.
\<close>

theorem parseRegions_formatRegions_roundtrip:
  assumes "distinct S" and "\<forall>r\<in>set S. isValidAWSRegion r"
  shows "parseRegions (formatRegions S) = S \<and> set (parseRegions (formatRegions S)) = set S"
proof -
  have f: "filter isValidAWSRegion S = S" using assms(2) by simp
  have fmt: "formatRegions S = joinStr '','' S"
    by (simp add: formatRegions_def f uniqueList_distinct_id[OF assms(1)])
  have plain: "\<forall>r\<in>set S. plainToken r" using assms(2) isValidAWSRegion_plain by blast
  have "parseRegions (formatRegions S) = S"
  proof (cases S)
    case Nil
    then show ?thesis by (simp add: formatRegions_def uniqueList_def parseRegions_def)
  next
    case (Cons x xs)
    have px: "plainToken x" using plain Cons by simp
    then obtain c where c: "c \<in> set x" "\<not> isSpace c"
      by (cases x) (auto simp: plainToken_def)
    have "c \<in> set (joinStr '','' S)"
      using c(1) join_contains_head[of x "'',''" xs] Cons by auto
    then have ne: "trim (joinStr '','' S) \<noteq> []" "joinStr '','' S \<noteq> []"
      using c(2) trim_empty_iff by auto
    have nocomma: "\<forall>y\<in>set S. CHR '','' \<notin> set y"
      using plain by (auto simp: plainToken_def list_all_iff)
    have sp: "splitStr CHR '','' (joinStr '','' S) = S"
      using split_join[of S "CHR '',''"] nocomma Cons by simp
    have tr: "map trim S = S" using plain trim_plain by (simp add: map_idI)
    have keep: "filter (\<lambda>region. region \<noteq> [] \<and> isValidAWSRegion region) S = S"
      using plain assms(2) by (auto simp: plainToken_def intro: filter_True)
    show ?thesis
      using ne by (simp add: fmt parseRegions_def sp tr keep uniqueList_distinct_id[OF assms(1)])
  qed
  then show ?thesis by simp
qed

lemma isValidAWSRegion_examples:
  "isValidAWSRegion ''us-east-1''" "isValidAWSRegion ''eu-west-1''"
  by (simp_all add: isValidAWSRegion_def regionPattern_def isLower_def isDigit_def
      ConfigManager_validRegions_def)

theorem parseRegions_formatRegions_roundtrip_witness:
  "parseRegions (formatRegions [''us-east-1'', ''eu-west-1'']) = [''us-east-1'', ''eu-west-1'']"
proof -
  have h1: "distinct [''us-east-1'', ''eu-west-1'']" by simp
  have h2: "\<forall>r\<in>set [''us-east-1'', ''eu-west-1'']. isValidAWSRegion r"
    by (simp add: isValidAWSRegion_examples)
  show ?thesis using parseRegions_formatRegions_roundtrip[OF h1 h2] by simp
qed


section \<open>Verification: the discovery cache\<close>







text \<open>
  Claim C10: \<open>checkTodayExecution\<close> never rejects. With a missing file, an
  unreadable file or a file that is not JSON it resolves to \<open>null\<close> and leaves the
  storage as it was, the same answer in all three cases; a failure to write the
  incremented record back (the file or the directory) is caught as well and gives
  \<open>null\<close>.
\<close>

theorem checkTodayExecution_never_throws:
  "(\<exists>r. fst (checkTodayExecution fs now) = Inr r) \<and>
   checkTodayExecution (fs\<lparr>cacheFile := Missing\<rparr>) now =
     (Inr None, fs\<lparr>cacheFile := Missing\<rparr>) \<and>
   checkTodayExecution (fs\<lparr>cacheFile := Unreadable\<rparr>) now =
     (Inr None, fs\<lparr>cacheFile := Unreadable\<rparr>) \<and>
   checkTodayExecution (fs\<lparr>cacheFile := Unparseable\<rparr>) now =
     (Inr None, fs\<lparr>cacheFile := Unparseable\<rparr>) \<and>
   fst (checkTodayExecution (fs\<lparr>writeFails := True\<rparr>) now) = Inr None \<and>
   fst (checkTodayExecution (fs\<lparr>dirExists := False, mkdirFails := True\<rparr>) now) = Inr None"
  by (auto simp add: checkTodayExecution_def loadCache_def cache_readFile_def JSON_parse_def
      saveCache_def ensureCacheDir_def Let_def
      split: cache_file.splits prod.splits sum.splits option.splits)


section \<open>Verification: updating the region configuration\<close>

lemma isValidAWSRegion_us_east_1: "isValidAWSRegion ''us-east-1''"
  by (simp add: isValidAWSRegion_def regionPattern_def isLower_def isDigit_def
      ConfigManager_validRegions_def)

text \<open>
  Claim C3, as stated, fails. With a full disk the write of the new file throws
  after the file was emptied, and \<open>updateRegionConfig\<close> resolves to \<^verbatim>\<open>false\<close>:
  nothing is thrown to the caller, and the old configuration is gone. With a file
  that exists and cannot be read, the read error is dropped and the call resolves to
  \<^verbatim>\<open>true\<close>.
\<close>

theorem updateRegionConfig_storage_error_not_thrown:
  "updateRegionConfig [''us-east-1'']
     \<lparr>fileContent = Some ''AWS_REGION=eu-west-1'', readError = None,
      writeError =
        Some (FailsAtWrite (Error ''Error'' ''ENOSPC: no space left on device, write'') 0)\<rparr> =
   (Inr False,
     \<lparr>fileContent = Some [], readError = None,
      writeError =
        Some (FailsAtWrite (Error ''Error'' ''ENOSPC: no space left on device, write'') 0)\<rparr>) \<and>
   fst (updateRegionConfig [''us-east-1'']
     \<lparr>fileContent = Some ''AWS_REGION=eu-west-1'',
      readError = Some (Error ''Error'' ''EACCES: permission denied, open''),
      writeError = None\<rparr>) = Inr True"
  by (simp add: updateRegionConfig_def updateRegionConfig_body_def isValidAWSRegion_us_east_1
      env_writeFile_def Let_def)

text \<open>The three ways the body of the \<^verbatim>\<open>try\<close> block ends.\<close>

lemma updateRegionConfig_body_cases:
  "fst (updateRegionConfig_body rs fs) =
     (if filter isValidAWSRegion rs = [] then Inl NoValidRegion
      else case writeError fs of
             Some (FailsAtOpen e) \<Rightarrow> Inl (StorageFailure e)
           | Some (FailsAtWrite e written) \<Rightarrow> Inl (StorageFailure e)
           | None \<Rightarrow> Inr True)"
  by (simp add: updateRegionConfig_body_def env_writeFile_def Let_def
      split: option.splits write_fault.splits)

lemma updateRegionConfig_fst:
  "fst (updateRegionConfig rs fs) =
     (case fst (updateRegionConfig_body rs fs) of Inl thrown \<Rightarrow> Inr False | Inr b \<Rightarrow> Inr b)"
  by (simp add: updateRegionConfig_def split: prod.splits sum.splits)

text \<open>
  Claim C3, amended: a failed write does not propagate as an error. Whatever the
  candidates and whenever the write meets a storage fault, at the open or while
  writing, \<open>updateRegionConfig\<close> catches the error and resolves to \<^verbatim>\<open>false\<close>; the
  failure reaches the caller as that result only. It is not swallowed without a
  trace: when the storage answers the read and accepts the write and some candidate
  is valid, the call resolves to \<^verbatim>\<open>true\<close>.
\<close>

theorem updateRegionConfig_write_failure_returns_false:
  "(writeError fs \<noteq> None \<longrightarrow> fst (updateRegionConfig rs fs) = Inr False) \<and>
   (readError fs = None \<and> writeError fs = None \<and> filter isValidAWSRegion rs \<noteq> [] \<longrightarrow>
      fst (updateRegionConfig rs fs) = Inr True)"
  unfolding updateRegionConfig_fst updateRegionConfig_body_cases
  by (auto split: option.splits write_fault.splits)

text \<open>
  The same update of an existing file, once with the open for writing refused and
  once on a storage without faults.
\<close>

theorem updateRegionConfig_write_failure_returns_false_witness:
  "fst (updateRegionConfig [''us-east-1'']
     \<lparr>fileContent = Some ''AWS_REGION=eu-west-1'', readError = None,
      writeError = Some (FailsAtOpen (Error ''Error'' ''EACCES: permission denied, open''))\<rparr>) =
     Inr False \<and>
   fst (updateRegionConfig [''us-east-1'']
     \<lparr>fileContent = Some ''AWS_REGION=eu-west-1'', readError = None, writeError = None\<rparr>) =
     Inr True"
proof -
  let ?denied = "\<lparr>fileContent = Some ''AWS_REGION=eu-west-1'', readError = None,
      writeError = Some (FailsAtOpen (Error ''Error'' ''EACCES: permission denied, open''))\<rparr>"
  let ?sound = "\<lparr>fileContent = Some ''AWS_REGION=eu-west-1'', readError = None,
      writeError = None\<rparr>"
  have h1: "writeError ?denied \<noteq> None" by simp
  have h2: "readError ?sound = None \<and> writeError ?sound = None \<and>
            filter isValidAWSRegion [''us-east-1''] \<noteq> []"
    by (simp add: isValidAWSRegion_us_east_1)
  show ?thesis
    using updateRegionConfig_write_failure_returns_false[of ?denied "[''us-east-1'']"]
          updateRegionConfig_write_failure_returns_false[of ?sound "[''us-east-1'']"]
          h1 h2
    by blast
qed


section \<open>Verification: the multi-region client\<close>

lemma getResourcesFromRegion_success:
  "regionSucceeds p r \<Longrightarrow>
   getResourcesFromRegion p now r =
     Inr \<lparr>result_region = r, resources = regionItems p now r, result_error = None\<rparr>"
  by (auto simp: getResourcesFromRegion_def promiseAll2_def getEC2Resources_def
      getLambdaResources_def regionSucceeds_def regionItems_def split: sum.splits)

lemma getResourcesFromRegion_failure:
  "\<not> regionSucceeds p r \<Longrightarrow>
   \<exists>e. (ec2_send p r = Inl e \<or> lambda_send p r = Inl e) \<and>
       getResourcesFromRegion p now r =
         Inr \<lparr>result_region = r, resources = [], result_error = Some (error_message e)\<rparr>"
  by (auto simp: getResourcesFromRegion_def promiseAll2_def getEC2Resources_def
      getLambdaResources_def regionSucceeds_def split: sum.splits)

text \<open>
  Claim C9: \<open>getResourcesFromRegion\<close> never rejects; it resolves to a result for the
  region asked. If either query fails, the result has no resources and carries the
  message of a failed query; when exactly one query fails it is the message of that
  one, and the items the other query fetched are gone.
\<close>

theorem getResourcesFromRegion_all_or_nothing:
  "(\<exists>res. getResourcesFromRegion p now r = Inr res \<and> result_region res = r) \<and>
   (\<forall>e. ec2_send p r = Inl e \<or> lambda_send p r = Inl e \<longrightarrow>
      (\<exists>e'. (ec2_send p r = Inl e' \<or> lambda_send p r = Inl e') \<and>
         getResourcesFromRegion p now r =
           Inr \<lparr>result_region = r, resources = [],
                 result_error = Some (error_message e')\<rparr>)) \<and>
   (\<forall>e items. ec2_send p r = Inl e \<and> getLambdaResources p now r = Inr items \<longrightarrow>
         getResourcesFromRegion p now r =
           Inr \<lparr>result_region = r, resources = [],
                 result_error = Some (error_message e)\<rparr>) \<and>
   (\<forall>e items. lambda_send p r = Inl e \<and> getEC2Resources p now r = Inr items \<longrightarrow>
         getResourcesFromRegion p now r =
           Inr \<lparr>result_region = r, resources = [],
                 result_error = Some (error_message e)\<rparr>)"
  by (auto simp: getResourcesFromRegion_def promiseAll2_def getEC2Resources_def
      getLambdaResources_def split: sum.splits)

theorem getResourcesFromRegion_all_or_nothing_witness:
  "getResourcesFromRegion exampleProvider ''2024-12-01T09:00:00.000Z'' ''us-west-2'' =
     Inr \<lparr>result_region = ''us-west-2'', resources = [],
           result_error = Some ''You are not authorized''\<rparr>"
proof -
  let ?now = "''2024-12-01T09:00:00.000Z''"
  have h: "ec2_send exampleProvider ''us-west-2'' =
             Inl (Error ''UnauthorizedOperation'' ''You are not authorized'') \<and>
           getLambdaResources exampleProvider ?now ''us-west-2'' =
             Inr [lambdaResource ''us-west-2'' ?now
                    \<lparr>FunctionArn = None, FunctionName = Some ''report'', Runtime = None\<rparr>]"
    by (simp add: exampleProvider_def getLambdaResources_def)
  show ?thesis
    using getResourcesFromRegion_all_or_nothing[of exampleProvider ?now "''us-west-2''"] h
    by auto
qed

text \<open>
  One step of the loop over the settled results adds the items of a region that
  succeeded and nothing for a region that failed, also when the error text is empty.
\<close>

lemma collectResult_step:
  "fst (collectResult (acc, errs) (r, getResourcesFromRegion p now r)) =
     acc @ (if regionSucceeds p r then regionItems p now r else [])"
proof (cases "regionSucceeds p r")
  case True
  then show ?thesis
    by (simp add: getResourcesFromRegion_success collectResult_def)
next
  case False
  then obtain e where "getResourcesFromRegion p now r =
         Inr \<lparr>result_region = r, resources = [], result_error = Some (error_message e)\<rparr>"
    using getResourcesFromRegion_failure by blast
  with False show ?thesis by (simp add: collectResult_def)
qed

lemma collectResult_fold:
  "fst (foldl collectResult (acc, errs)
          (zip regions (map (getResourcesFromRegion p now) regions))) =
     acc @ concat (map (regionItems p now) (filter (regionSucceeds p) regions))"
proof (induction regions arbitrary: acc errs)
  case Nil
  then show ?case by simp
next
  case (Cons r regions)
  obtain acc' errs' where
    st: "collectResult (acc, errs) (r, getResourcesFromRegion p now r) = (acc', errs')"
    by (cases "collectResult (acc, errs) (r, getResourcesFromRegion p now r)")
  have a: "acc' = acc @ (if regionSucceeds p r then regionItems p now r else [])"
    using collectResult_step[of acc errs r p now] st by simp
  show ?case using Cons.IH[of acc' errs'] by (simp add: st a)
qed

text \<open>
  Claim C4: for every list of regions and whatever regions fail,
  \<open>getResourcesFromAllRegions\<close> never rejects: it resolves to the items of the
  regions that succeeded, region after region in the order of the input, each
  region's items in their own order (EC2 items, then Lambda items), and nothing of a
  failed region. This holds for the empty list and when every region fails too (the
  result is then empty).
\<close>

theorem getResourcesFromAllRegions_partial_failure:
  "getResourcesFromAllRegions p now regions =
     Inr (concat (map (regionItems p now) (filter (regionSucceeds p) regions)))"
proof (cases "regions = []")
  case True
  then show ?thesis by (simp add: getResourcesFromAllRegions_def)
next
  case False
  obtain allResources errors where
    f: "foldl collectResult ([], []) (zip regions (map (getResourcesFromRegion p now) regions)) =
          (allResources, errors)"
    by (cases "foldl collectResult ([], [])
                 (zip regions (map (getResourcesFromRegion p now) regions))")
  have "allResources = concat (map (regionItems p now) (filter (regionSucceeds p) regions))"
    using collectResult_fold[of "[]" "[]" regions p now] f by simp
  with False f show ?thesis
    by (simp add: getResourcesFromAllRegions_def Let_def)
qed

text \<open>Regions A, B, C with B failing: the items of A, then the items of C.\<close>

theorem getResourcesFromAllRegions_partial_failure_witness:
  "map_sum id (map crossRegionId)
     (getResourcesFromAllRegions exampleProvider ''2024-12-01T09:00:00.000Z''
        [''us-east-1'', ''us-west-2'', ''eu-west-1'']) =
   Inr [''ec2-us-east-1-i-123'', ''lambda-us-east-1-report'',
        ''ec2-eu-west-1-i-123'', ''lambda-eu-west-1-report'']"
  using getResourcesFromAllRegions_partial_failure
          [of exampleProvider "''2024-12-01T09:00:00.000Z''"
              "[''us-east-1'', ''us-west-2'', ''eu-west-1'']"]
  by (simp add: regionSucceeds_def regionItems_def exampleProvider_def getEC2Resources_def
      getLambdaResources_def ec2Resource_def lambdaResource_def tmpl_def)


section \<open>Verification: the cross-region key\<close>


















end
